theory Spec2Isabelle
  imports Main "HOL-Library.AList" "HOL-Library.Word"
begin

section \<open>Tables as pandas holds them\<close>

text \<open>
  The program is a Streamlit script, \<^verbatim>\<open>app.py\<close>: \<^verbatim>\<open>process_data(files)\<close> reads every
  uploaded file into a pandas DataFrame, checks the six required columns, drops the rows
  whose \<^verbatim>\<open>Code\<close> is null, adds the column \<^verbatim>\<open>Difference\<close> and concatenates the
  per-file tables; five analyses then read the result.

  A cell of a decoded table is null (pandas' NaN), an integer, a float or a text. An
  integer is what a numpy int64 column holds, a 64-bit word read as a signed number:
  its arithmetic wraps around. A float is a float64 value other than NaN; the type \<open>'f\<close>
  of floats is a parameter, and so is their arithmetic (\<open>np\<close> below), which is numpy's and
  is not defined here. Booleans and dates are outside this model. A table is its list of
  column labels and its list of rows, each row an association list from column label to
  cell in column order; the position of a row in the list is its position in the
  DataFrame.
\<close>

datatype 'f cell = NaN | Num "64 word" | Float 'f | Str string

type_synonym 'f row = "(string \<times> 'f cell) list"

record 'f dataframe =
  columns :: "string list"
  rows :: "'f row list"

text \<open>
  The float64 arithmetic the program uses: the subtraction of two floats (\<open>None\<close> when
  the result is NaN, as for two infinities), the cast of an int64 to float64 that numpy
  applies when an integer column meets a float column, and the comparison of a float
  with 0.
\<close>

record 'f float64 =
  float_sub :: "'f \<Rightarrow> 'f \<Rightarrow> 'f option"
  float_of_int64 :: "64 word \<Rightarrow> 'f"
  float_eq_zero :: "'f \<Rightarrow> bool"

fun float_cell :: "'f option \<Rightarrow> 'f cell" where
  "float_cell None = NaN"
| "float_cell (Some x) = Float x"

text \<open>
  The exceptions of the model. \<open>TypeError l r\<close> is Python's
  \<^verbatim>\<open>unsupported operand type(s) for -: 'l' and 'r'\<close>: its only content is the two operand
  type names. \<open>ReadError\<close> stands for whatever \<^verbatim>\<open>pd.read_excel\<close> or \<^verbatim>\<open>pd.read_csv\<close>
  raise on a file they cannot decode.
\<close>

datatype exn =
  KeyError string
  | TypeError string string
  | ValueError string
  | ReadError string

fun isna :: "'f cell \<Rightarrow> bool" where
  "isna NaN = True"
| "isna (Num n) = False"
| "isna (Float x) = False"
| "isna (Str s) = False"

fun type_name :: "'f cell \<Rightarrow> string" where
  "type_name NaN = ''float''"
| "type_name (Num n) = ''int''"
| "type_name (Float x) = ''float''"
| "type_name (Str s) = ''str''"

text \<open>The cell of a row under a column label; a label the row lacks reads as NaN, which is
  what reindexing a table to more columns fills in.\<close>

definition cell_of :: "'f row \<Rightarrow> string \<Rightarrow> 'f cell" where
  "cell_of r c = (case map_of r c of Some v \<Rightarrow> v | None \<Rightarrow> NaN)"

text \<open>\<^verbatim>\<open>df[c]\<close>: the column as a list of cells, KeyError for a label that is not a column.\<close>

definition getitem :: "'f dataframe \<Rightarrow> string \<Rightarrow> exn + 'f cell list" where
  "getitem df c =
     (if c \<in> set (columns df) then Inr (map (\<lambda>r. cell_of r c) (rows df))
      else Inl (KeyError c))"

text \<open>\<^verbatim>\<open>df[c] = values\<close>: overwrites the column in place, or appends it as the last column;
  pandas refuses values of another length than the table.\<close>

definition setitem :: "'f dataframe \<Rightarrow> string \<Rightarrow> 'f cell list \<Rightarrow> exn + 'f dataframe" where
  "setitem df c vs =
     (if length vs \<noteq> length (rows df)
      then Inl (ValueError ''Length of values does not match length of index'')
      else Inr \<lparr>columns = (if c \<in> set (columns df) then columns df else columns df @ [c]),
                rows = map (\<lambda>(r, v). AList.update c v r) (zip (rows df) vs)\<rparr>)"

text \<open>\<^verbatim>\<open>df.dropna(subset=[c])\<close>: keeps, in order, the rows whose cell under \<open>c\<close> is not
  null.\<close>

definition dropna :: "string \<Rightarrow> 'f dataframe \<Rightarrow> exn + 'f dataframe" where
  "dropna c df =
     (if c \<in> set (columns df)
      then Inr (df\<lparr>rows := filter (\<lambda>r. \<not> isna (cell_of r c)) (rows df)\<rparr>)
      else Inl (KeyError c))"

text \<open>
  The subtraction of two columns, cell by cell. Two integers give their int64 difference,
  which wraps around silently outside the int64 range. Where a float is involved the
  result is the float64 difference, an integer on the other side being cast first. Where
  either cell is null the result is NaN: NaN propagates through numeric columns, and for
  columns of Python objects pandas repeats a failed operation on the positions where both
  sides are non-null only. A text against a non-null cell raises Python's TypeError, and
  the first such row decides which.
\<close>

fun cell_sub :: "'f float64 \<Rightarrow> 'f cell \<Rightarrow> 'f cell \<Rightarrow> exn + 'f cell" where
  "cell_sub np (Num a) (Num b) = Inr (Num (a - b))"
| "cell_sub np NaN y = Inr NaN"
| "cell_sub np x NaN = Inr NaN"
| "cell_sub np (Float x) (Float y) = Inr (float_cell (float_sub np x y))"
| "cell_sub np (Num a) (Float y) = Inr (float_cell (float_sub np (float_of_int64 np a) y))"
| "cell_sub np (Float x) (Num b) = Inr (float_cell (float_sub np x (float_of_int64 np b)))"
| "cell_sub np x y = Inl (TypeError (type_name x) (type_name y))"

fun series_sub :: "'f float64 \<Rightarrow> 'f cell list \<Rightarrow> 'f cell list \<Rightarrow> exn + 'f cell list" where
  "series_sub np (x # xs) (y # ys) =
     (case cell_sub np x y of
        Inl e \<Rightarrow> Inl e
      | Inr v \<Rightarrow> (case series_sub np xs ys of Inl e \<Rightarrow> Inl e | Inr vs \<Rightarrow> Inr (v # vs)))"
| "series_sub np xs ys = Inr []"

text \<open>
  \<^verbatim>\<open>pd.concat(objs, ignore_index=True)\<close>: an empty list raises ValueError; otherwise the
  columns are the union of the tables' columns in order of first appearance, every row is
  reindexed to them (NaN under a column its table lacks), and the rows follow each other
  in the order of the list. Where one table has integers under a column and another has
  floats or nulls, pandas casts the integers of that column to float64; a cell keeps its
  integer here, which is the same number unless its magnitude is beyond \<open>2 ^ 53\<close>.
\<close>

fun union_columns :: "string list \<Rightarrow> string list \<Rightarrow> string list" where
  "union_columns seen [] = seen"
| "union_columns seen (c # cs) = union_columns (if c \<in> set seen then seen else seen @ [c]) cs"

definition reindex :: "string list \<Rightarrow> 'f row \<Rightarrow> 'f row" where
  "reindex cols r = map (\<lambda>c. (c, cell_of r c)) cols"

definition pd_concat :: "'f dataframe list \<Rightarrow> exn + 'f dataframe" where
  "pd_concat objs =
     (if objs = [] then Inl (ValueError ''No objects to concatenate'')
      else let cols = union_columns [] (concat (map columns objs))
           in Inr \<lparr>columns = cols,
                   rows = concat (map (\<lambda>df. map (reindex cols) (rows df)) objs)\<rparr>)"

section \<open>The ingestion: \<^verbatim>\<open>process_data\<close>\<close>

text \<open>
  An uploaded file is a name and its bytes. The two pandas readers are not part of the
  program: they are parameters \<open>read_excel\<close> and \<open>read_csv\<close>, each giving the decoded
  table or the exception it raises.
\<close>

record 'b uploaded_file =
  name :: string
  content :: 'b

type_synonym ('b, 'f) reader = "'b uploaded_file \<Rightarrow> exn + 'f dataframe"

definition endswith :: "string \<Rightarrow> string \<Rightarrow> bool" where
  "endswith s suf = (length suf \<le> length s \<and> drop (length s - length suf) s = suf)"

text \<open>Lines 16 to 19: the reader is chosen by the name alone.\<close>

definition read_file ::
  "('b, 'f) reader \<Rightarrow> ('b, 'f) reader \<Rightarrow> 'b uploaded_file \<Rightarrow> exn + 'f dataframe" where
  "read_file read_excel read_csv file =
     (if endswith (name file) ''.xlsx'' then read_excel file else read_csv file)"

definition required_columns :: "string set" where
  "required_columns = {''Code'', ''LBType'', ''Tot'', ''TotExp'', ''Sector'', ''District''}"

text \<open>What \<^verbatim>\<open>st.error\<close> puts on the page: the file name and the set of missing columns of
  \<^verbatim>\<open>Invalid format in <name>. Missing: <set>\<close>.\<close>

datatype message = Invalid_format string "string set"

text \<open>Line 30: \<^verbatim>\<open>df['Difference'] = df['Tot'] - df['TotExp']\<close>.\<close>

definition add_difference :: "'f float64 \<Rightarrow> 'f dataframe \<Rightarrow> exn + 'f dataframe" where
  "add_difference np df =
     (case getitem df ''Tot'' of
        Inl e \<Rightarrow> Inl e
      | Inr tot \<Rightarrow>
          (case getitem df ''TotExp'' of
             Inl e \<Rightarrow> Inl e
           | Inr totexp \<Rightarrow>
               (case series_sub np tot totexp of
                  Inl e \<Rightarrow> Inl e
                | Inr diff \<Rightarrow> setitem df ''Difference'' diff)))"

text \<open>Lines 26 to 30 on one decoded table: the null-\<^verbatim>\<open>Code\<close> rows go, then the
  column \<^verbatim>\<open>Difference\<close> is added.\<close>

definition prepare :: "'f float64 \<Rightarrow> 'f dataframe \<Rightarrow> exn + 'f dataframe" where
  "prepare np df =
     (case dropna ''Code'' df of
        Inl e \<Rightarrow> Inl e
      | Inr df1 \<Rightarrow> add_difference np df1)"

text \<open>
  The loop of lines 15 to 32, with the list \<open>all_data\<close> it appends to. The result is what
  was shown with \<^verbatim>\<open>st.error\<close>, and either the exception that left the loop or what the
  loop hands on: \<open>None\<close> when line 24 returned None, the accumulated tables otherwise.
\<close>

fun process_files ::
  "'f float64 \<Rightarrow> ('b, 'f) reader \<Rightarrow> ('b, 'f) reader \<Rightarrow> 'b uploaded_file list
     \<Rightarrow> 'f dataframe list \<Rightarrow> message list \<times> (exn + 'f dataframe list option)" where
  "process_files np read_excel read_csv [] all_data = ([], Inr (Some all_data))"
| "process_files np read_excel read_csv (file # files) all_data =
     (case read_file read_excel read_csv file of
        Inl e \<Rightarrow> ([], Inl e)
      | Inr df \<Rightarrow>
          if \<not> required_columns \<subseteq> set (columns df)
          then ([Invalid_format (name file) (required_columns - set (columns df))], Inr None)
          else (case prepare np df of
                  Inl e \<Rightarrow> ([], Inl e)
                | Inr df2 \<Rightarrow> process_files np read_excel read_csv files (all_data @ [df2])))"

text \<open>\<^verbatim>\<open>process_data\<close>: the loop from an empty \<open>all_data\<close>, then line 34. The second
  component is the exception raised, or the value returned: \<open>None\<close> or the table.\<close>

definition process_data ::
  "'f float64 \<Rightarrow> ('b, 'f) reader \<Rightarrow> ('b, 'f) reader \<Rightarrow> 'b uploaded_file list
     \<Rightarrow> message list \<times> (exn + 'f dataframe option)" where
  "process_data np read_excel read_csv files =
     (case process_files np read_excel read_csv files [] of
        (shown, Inl e) \<Rightarrow> (shown, Inl e)
      | (shown, Inr None) \<Rightarrow> (shown, Inr None)
      | (shown, Inr (Some all_data)) \<Rightarrow>
          (case pd_concat all_data of
             Inl e \<Rightarrow> (shown, Inl e)
           | Inr table \<Rightarrow> (shown, Inr (Some table))))"

section \<open>The script around it\<close>

text \<open>Line 66: \<^verbatim>\<open>data['Funding Status'] = np.where(data['Tot'] == 0, 'Not Funded', 'Funded')\<close>.
  The comparison with 0 is true of the integer 0 and of a float that compares equal to 0:
  NaN and a text compare unequal.\<close>

fun eq_zero :: "'f float64 \<Rightarrow> 'f cell \<Rightarrow> bool" where
  "eq_zero np (Num n) = (n = 0)"
| "eq_zero np (Float x) = float_eq_zero np x"
| "eq_zero np NaN = False"
| "eq_zero np (Str s) = False"

definition funding_label :: "'f float64 \<Rightarrow> 'f cell \<Rightarrow> 'f cell" where
  "funding_label np tot = (if eq_zero np tot then Str ''Not Funded'' else Str ''Funded'')"

definition funding_status :: "'f float64 \<Rightarrow> 'f dataframe \<Rightarrow> exn + 'f dataframe" where
  "funding_status np data =
     (case getitem data ''Tot'' of
        Inl e \<Rightarrow> Inl e
      | Inr tot \<Rightarrow> setitem data ''Funding Status'' (map (funding_label np) tot))"

text \<open>
  The five analyses of the sidebar, in the order of the script. Only the second assigns
  to \<^verbatim>\<open>data\<close>; the others build new objects from it (a selection by a mask, a sum, a
  group-by) and draw them. \<open>data_after np a data\<close> is the table bound to \<^verbatim>\<open>data\<close> once
  the block of analysis \<open>a\<close> has run; what the blocks draw is not modelled.
\<close>

datatype analysis =
  Filter_Data_by_LBType
  | Find_Funded_Non_Funded_Projects
  | Compare_Total_Expense_Total_Income
  | District_wise_Expense_vs_Income
  | Find_Projects_Where_Funds_Were_Not_Used

fun data_after :: "'f float64 \<Rightarrow> analysis \<Rightarrow> 'f dataframe \<Rightarrow> 'f dataframe" where
  "data_after np Find_Funded_Non_Funded_Projects data =
     (case funding_status np data of Inl e \<Rightarrow> data | Inr data' \<Rightarrow> data')"
| "data_after np a data = data"

definition run_analyses ::
  "'f float64 \<Rightarrow> analysis list \<Rightarrow> 'f dataframe \<Rightarrow> 'f dataframe" where
  "run_analyses np analysis_options data =
     fold (\<lambda>a d. if a \<in> set analysis_options then data_after np a d else d)
       [Filter_Data_by_LBType, Find_Funded_Non_Funded_Projects,
        Compare_Total_Expense_Total_Income, District_wise_Expense_vs_Income,
        Find_Projects_Where_Funds_Were_Not_Used]
       data"

text \<open>
  The script from line 10 on: nothing runs while no file is uploaded; otherwise
  \<^verbatim>\<open>process_data\<close> is called and, when it returned a table, the chosen analyses run on
  it. The result is what was shown with \<^verbatim>\<open>st.error\<close> and the exception of
  \<^verbatim>\<open>process_data\<close> or the final value of \<^verbatim>\<open>data\<close> (\<open>None\<close> when there is none).
\<close>

definition app ::
  "'f float64 \<Rightarrow> ('b, 'f) reader \<Rightarrow> ('b, 'f) reader \<Rightarrow> 'b uploaded_file list
     \<Rightarrow> analysis list \<Rightarrow> message list \<times> (exn + 'f dataframe option)" where
  "app np read_excel read_csv uploaded_files analysis_options =
     (if uploaded_files = [] then ([], Inr None)
      else (case process_data np read_excel read_csv uploaded_files of
              (shown, Inr (Some data)) \<Rightarrow>
                (shown, Inr (Some (run_analyses np analysis_options data)))
            | (shown, Inr None) \<Rightarrow> (shown, Inr None)
            | (shown, Inl e) \<Rightarrow> (shown, Inl e)))"

section \<open>Notions for stating the properties\<close>

text \<open>A row is kept by line 27 when its \<^verbatim>\<open>Code\<close> is not null.\<close>

definition kept :: "'f row \<Rightarrow> bool" where
  "kept r = (\<not> isna (cell_of r ''Code''))"

text \<open>The cell line 30 computes for a row, where the subtraction does not raise.\<close>

definition difference_of :: "'f float64 \<Rightarrow> 'f row \<Rightarrow> 'f cell" where
  "difference_of np r =
     (case cell_sub np (cell_of r ''Tot'') (cell_of r ''TotExp'') of Inl e \<Rightarrow> NaN | Inr v \<Rightarrow> v)"

text \<open>A file passes one round of the loop: it is decoded, has the six columns, and lines
  26 to 30 raise nothing on it.\<close>

definition accepted ::
  "'f float64 \<Rightarrow> ('b, 'f) reader \<Rightarrow> ('b, 'f) reader \<Rightarrow> 'b uploaded_file \<Rightarrow> bool" where
  "accepted np read_excel read_csv file =
     (case read_file read_excel read_csv file of
        Inl e \<Rightarrow> False
      | Inr df \<Rightarrow>
          required_columns \<subseteq> set (columns df) \<and>
          (case prepare np df of Inl e \<Rightarrow> False | Inr t \<Rightarrow> True))"

text \<open>The table the loop appends for an accepted file.\<close>

definition table_of ::
  "'f float64 \<Rightarrow> ('b, 'f) reader \<Rightarrow> ('b, 'f) reader \<Rightarrow> 'b uploaded_file \<Rightarrow> 'f dataframe" where
  "table_of np read_excel read_csv file =
     projr (prepare np (projr (read_file read_excel read_csv file)))"

text \<open>A reader whose tables have lost their null-\<^verbatim>\<open>Code\<close> rows before
  \<^verbatim>\<open>process_data\<close> sees them.\<close>

definition without_null_codes :: "('b, 'f) reader \<Rightarrow> ('b, 'f) reader" where
  "without_null_codes reader file =
     (case reader file of
        Inl e \<Rightarrow> Inl e
      | Inr df \<Rightarrow> Inr (df\<lparr>rows := filter kept (rows df)\<rparr>))"



section \<open>Example uploads\<close>

text \<open>
  Concrete files to run the program on. Their content is the table a reader finds in
  them, so \<open>reads_content\<close> decodes any of them and \<open>unreadable\<close> none;
  \<open>reads_spreadsheets\<close> decodes the files named \<^verbatim>\<open>.xlsx\<close> only and \<open>reads_text\<close> the others
  only. The floats of the examples are integers of small magnitude, written as that
  integer: on them float64 arithmetic is exact, which is what \<open>small_floats\<close> computes.

  Files A and B are the two files of the specification's example; C lacks the column
  \<^verbatim>\<open>TotExp\<close>; D has a null \<^verbatim>\<open>Tot\<close> in one row and the float 0 in the other (a column with a
  null is a float64 column); E has a text in \<^verbatim>\<open>Tot\<close>; F is the content of A under a name
  that ends neither in \<^verbatim>\<open>.xlsx\<close> nor in \<^verbatim>\<open>.csv\<close>; G has the largest int64 in \<^verbatim>\<open>Tot\<close> and
  -1 in \<^verbatim>\<open>TotExp\<close>.
\<close>

definition small_floats :: "int float64" where
  "small_floats =
     \<lparr>float_sub = (\<lambda>x y. Some (x - y)), float_of_int64 = sint, float_eq_zero = (\<lambda>x. x = 0)\<rparr>"

definition reads_content :: "(int dataframe, int) reader" where
  "reads_content file = Inr (content file)"

definition unreadable :: "(int dataframe, int) reader" where
  "unreadable file = Inl (ReadError (name file))"



definition six_columns :: "string list" where
  "six_columns = [''Code'', ''LBType'', ''Tot'', ''TotExp'', ''Sector'', ''District'']"

definition mk_row ::
  "int cell \<Rightarrow> string \<Rightarrow> int cell \<Rightarrow> int cell \<Rightarrow> string \<Rightarrow> string \<Rightarrow> int row" where
  "mk_row code lbtype tot totexp sector district =
     [(''Code'', code), (''LBType'', Str lbtype), (''Tot'', tot), (''TotExp'', totexp),
      (''Sector'', Str sector), (''District'', Str district)]"

definition file_A :: "int dataframe uploaded_file" where
  "file_A = \<lparr>name = ''a.csv'', content = \<lparr>columns = six_columns,
     rows = [mk_row (Num 1) ''X'' (Num 100) (Num 80) ''S1'' ''D1'']\<rparr>\<rparr>"

definition file_B :: "int dataframe uploaded_file" where
  "file_B = \<lparr>name = ''b.xlsx'', content = \<lparr>columns = six_columns,
     rows = [mk_row NaN ''Y'' (Num 0) (Num 0) ''S2'' ''D2'',
             mk_row (Float 2) ''Y'' (Num 50) (Num 50) ''S2'' ''D2'']\<rparr>\<rparr>"

definition file_C :: "int dataframe uploaded_file" where
  "file_C = \<lparr>name = ''c.csv'',
     content = \<lparr>columns = [''Code'', ''LBType'', ''Tot'', ''Sector'', ''District''],
       rows = [[(''Code'', Num 9), (''LBType'', Str ''X''), (''Tot'', Num 7),
                (''Sector'', Str ''S1''), (''District'', Str ''D1'')]]\<rparr>\<rparr>"

definition file_D :: "int dataframe uploaded_file" where
  "file_D = \<lparr>name = ''d.csv'', content = \<lparr>columns = six_columns,
     rows = [mk_row (Num 3) ''Z'' NaN (Num 5) ''S3'' ''D3'',
             mk_row (Num 4) ''Z'' (Float 0) (Num 0) ''S3'' ''D3'']\<rparr>\<rparr>"

definition file_E :: "int dataframe uploaded_file" where
  "file_E = \<lparr>name = ''e.csv'', content = \<lparr>columns = six_columns,
     rows = [mk_row (Num 5) ''Z'' (Str ''unknown'') (Num 5) ''S3'' ''D3'']\<rparr>\<rparr>"

definition file_F :: "int dataframe uploaded_file" where
  "file_F = \<lparr>name = ''data.txt'', content = content file_A\<rparr>"


text \<open>The tables the program makes of them.\<close>

definition table_A :: "int dataframe" where
  "table_A = \<lparr>columns = six_columns @ [''Difference''],
     rows = [mk_row (Num 1) ''X'' (Num 100) (Num 80) ''S1'' ''D1'' @ [(''Difference'', Num 20)]]\<rparr>"

definition table_AB :: "int dataframe" where
  "table_AB = \<lparr>columns = six_columns @ [''Difference''],
     rows = [mk_row (Num 1) ''X'' (Num 100) (Num 80) ''S1'' ''D1'' @ [(''Difference'', Num 20)],
             mk_row (Float 2) ''Y'' (Num 50) (Num 50) ''S2'' ''D2'' @ [(''Difference'', Num 0)]]\<rparr>"

definition table_D :: "int dataframe" where
  "table_D = \<lparr>columns = six_columns @ [''Difference''],
     rows = [mk_row (Num 3) ''Z'' NaN (Num 5) ''S3'' ''D3'' @ [(''Difference'', NaN)],
             mk_row (Num 4) ''Z'' (Float 0) (Num 0) ''S3'' ''D3'' @ [(''Difference'', Float 0)]]\<rparr>"

definition table_D_labelled :: "int dataframe" where
  "table_D_labelled = \<lparr>columns = six_columns @ [''Difference'', ''Funding Status''],
     rows = [mk_row (Num 3) ''Z'' NaN (Num 5) ''S3'' ''D3'' @
               [(''Difference'', NaN), (''Funding Status'', Str ''Funded'')],
             mk_row (Num 4) ''Z'' (Float 0) (Num 0) ''S3'' ''D3'' @
               [(''Difference'', Float 0), (''Funding Status'', Str ''Not Funded'')]]\<rparr>"


section \<open>Cells, columns and rows\<close>

lemma cell_of_update: "cell_of (AList.update k v r) c = (if c = k then v else cell_of r c)"
  by (simp add: cell_of_def update_conv')

lemma map_of_reindex:
  "map_of (reindex cols r) c = (if c \<in> set cols then Some (cell_of r c) else None)"
  unfolding reindex_def by (induction cols) auto

lemma cell_of_reindex: "cell_of (reindex cols r) c = (if c \<in> set cols then cell_of r c else NaN)"
  by (simp add: cell_of_def map_of_reindex)

lemma set_union_columns: "set (union_columns seen cs) = set seen \<union> set cs"
  by (induction cs arbitrary: seen) auto





lemma series_sub_Inr:
  "series_sub np (map (\<lambda>r. cell_of r a) rs) (map (\<lambda>r. cell_of r b) rs) = Inr vs \<Longrightarrow>
     vs = map (\<lambda>r. case cell_sub np (cell_of r a) (cell_of r b) of Inl e \<Rightarrow> NaN | Inr v \<Rightarrow> v) rs \<and>
     (\<forall>r\<in>set rs. \<exists>v. cell_sub np (cell_of r a) (cell_of r b) = Inr v)"
  by (induction rs arbitrary: vs) (auto split: sum.splits)




lemma zip_map_same: "map (\<lambda>(r, v). h r v) (zip rs (map f rs)) = map (\<lambda>r. h r (f r)) rs"
  by (induction rs) auto

section \<open>One file\<close>

lemma add_difference_Inr:
  assumes "add_difference np df = Inr df2"
  shows "columns df2 = (if ''Difference'' \<in> set (columns df) then columns df else columns df @ [''Difference''])"
    and "rows df2 = map (\<lambda>r. AList.update ''Difference'' (difference_of np r) r) (rows df)"
    and "\<forall>r\<in>set (rows df). cell_sub np (cell_of r ''Tot'') (cell_of r ''TotExp'') = Inr (difference_of np r)"
proof -
  from assms obtain vs where
    vs: "series_sub np (map (\<lambda>r. cell_of r ''Tot'') (rows df)) (map (\<lambda>r. cell_of r ''TotExp'') (rows df)) = Inr vs"
    and set: "setitem df ''Difference'' vs = Inr df2"
    by (auto simp: add_difference_def getitem_def split: if_splits sum.splits)
  from series_sub_Inr [OF vs] have
    vs_eq: "vs = map (difference_of np) (rows df)"
    and ok: "\<forall>r\<in>set (rows df). \<exists>v. cell_sub np (cell_of r ''Tot'') (cell_of r ''TotExp'') = Inr v"
    by (auto simp: difference_of_def [abs_def])
  from set show "columns df2 = (if ''Difference'' \<in> set (columns df) then columns df else columns df @ [''Difference''])"
    by (auto simp: setitem_def split: if_splits)
  from set show "rows df2 = map (\<lambda>r. AList.update ''Difference'' (difference_of np r) r) (rows df)"
    by (auto simp: setitem_def vs_eq zip_map_same split: if_splits)
  from ok show "\<forall>r\<in>set (rows df). cell_sub np (cell_of r ''Tot'') (cell_of r ''TotExp'') = Inr (difference_of np r)"
    by (auto simp: difference_of_def)
qed

lemma prepare_Inr:
  assumes "prepare np df = Inr t"
  shows "columns t = (if ''Difference'' \<in> set (columns df) then columns df else columns df @ [''Difference''])"
    and "rows t = map (\<lambda>r. AList.update ''Difference'' (difference_of np r) r) (filter kept (rows df))"
    and "\<forall>r\<in>set (rows df). kept r \<longrightarrow> cell_sub np (cell_of r ''Tot'') (cell_of r ''TotExp'') = Inr (difference_of np r)"
proof -
  from assms have a: "add_difference np (df\<lparr>rows := filter kept (rows df)\<rparr>) = Inr t"
    by (auto simp: prepare_def dropna_def kept_def [abs_def] split: if_splits sum.splits)
  from add_difference_Inr(1) [OF a] show "columns t = (if ''Difference'' \<in> set (columns df) then columns df else columns df @ [''Difference''])"
    by simp
  from add_difference_Inr(2) [OF a] show "rows t = map (\<lambda>r. AList.update ''Difference'' (difference_of np r) r) (filter kept (rows df))"
    by simp
  from add_difference_Inr(3) [OF a] show "\<forall>r\<in>set (rows df). kept r \<longrightarrow> cell_sub np (cell_of r ''Tot'') (cell_of r ''TotExp'') = Inr (difference_of np r)"
    by simp
qed



lemma prepare_without_null_codes: "prepare np (df\<lparr>rows := filter kept (rows df)\<rparr>) = prepare np df"
  by (simp add: prepare_def dropna_def kept_def [abs_def])

lemma read_file_without_null_codes:
  "read_file (without_null_codes rx) (without_null_codes rc) f =
     (case read_file rx rc f of Inl e \<Rightarrow> Inl e | Inr df \<Rightarrow> Inr (df\<lparr>rows := filter kept (rows df)\<rparr>))"
  by (simp add: read_file_def without_null_codes_def)

lemma accepted_iff:
  "accepted np rx rc f \<longleftrightarrow>
     (\<exists>df t. read_file rx rc f = Inr df \<and> required_columns \<subseteq> set (columns df) \<and> prepare np df = Inr t)"
  by (auto simp: accepted_def split: sum.splits)

lemma table_of_accepted:
  assumes "accepted np rx rc f"
  obtains df where "read_file rx rc f = Inr df" and "required_columns \<subseteq> set (columns df)"
    and "prepare np df = Inr (table_of np rx rc f)"
  using assms by (auto simp: accepted_iff table_of_def)

section \<open>The loop and the concatenation\<close>

lemma process_files_accepted:
  "accepted np rx rc f \<Longrightarrow>
     process_files np rx rc (f # fs) acc = process_files np rx rc fs (acc @ [table_of np rx rc f])"
  by (auto simp: accepted_iff table_of_def)

lemma process_files_append:
  "\<forall>g\<in>set pre. accepted np rx rc g \<Longrightarrow>
     process_files np rx rc (pre @ rest) acc = process_files np rx rc rest (acc @ map (table_of np rx rc) pre)"
  by (induction pre arbitrary: acc) (simp_all add: process_files_accepted del: process_files.simps)

lemma process_files_Some:
  "process_files np rx rc files acc = (shown, Inr (Some all_data)) \<Longrightarrow>
     shown = [] \<and> (\<forall>f\<in>set files. accepted np rx rc f) \<and> all_data = acc @ map (table_of np rx rc) files"
proof (induction files arbitrary: acc)
  case Nil
  then show ?case by simp
next
  case (Cons f fs)
  from Cons.prems have acc: "accepted np rx rc f"
    by (auto simp: accepted_def split: sum.splits if_splits)
  with Cons.prems have "process_files np rx rc fs (acc @ [table_of np rx rc f]) = (shown, Inr (Some all_data))"
    by (simp only: process_files_accepted)
  from Cons.IH [OF this] acc show ?case by simp
qed



lemma process_files_without_null_codes:
  "process_files np (without_null_codes rx) (without_null_codes rc) files acc = process_files np rx rc files acc"
  by (induction files arbitrary: acc)
    (auto simp: read_file_without_null_codes prepare_without_null_codes split: sum.splits)

lemma process_data_Some:
  assumes "process_data np rx rc files = (shown, Inr (Some table))"
  shows "shown = []" and "\<forall>f\<in>set files. accepted np rx rc f"
    and "pd_concat (map (table_of np rx rc) files) = Inr table"
proof -
  from assms obtain all_data where
    pf: "process_files np rx rc files [] = (shown, Inr (Some all_data))"
    and pc: "pd_concat all_data = Inr table"
    by (auto simp: process_data_def split: prod.splits sum.splits option.splits)
  from process_files_Some [OF pf] pc
  show "shown = []" and "\<forall>f\<in>set files. accepted np rx rc f"
    and "pd_concat (map (table_of np rx rc) files) = Inr table"
    by simp_all
qed

lemma pd_concat_Inr:
  assumes "pd_concat objs = Inr table"
  shows "objs \<noteq> []"
    and "set (columns table) = (\<Union>df\<in>set objs. set (columns df))"
    and "rows table = concat (map (\<lambda>df. map (reindex (columns table)) (rows df)) objs)"
  using assms by (auto simp: pd_concat_def Let_def set_union_columns split: if_splits)

text \<open>Where a row of the returned table comes from: a kept row of one decoded file, with
  its \<^verbatim>\<open>Difference\<close> set and reindexed to the columns of the whole table.\<close>

lemma row_origin:
  assumes ok: "process_data np rx rc files = (shown, Inr (Some table))"
    and r': "r' \<in> set (rows table)"
  obtains f df r where "f \<in> set files" and "read_file rx rc f = Inr df"
    and "required_columns \<subseteq> set (columns df)"
    and "r \<in> set (rows df)" and "kept r"
    and "cell_sub np (cell_of r ''Tot'') (cell_of r ''TotExp'') = Inr (difference_of np r)"
    and "r' = reindex (columns table) (AList.update ''Difference'' (difference_of np r) r)"
    and "required_columns \<subseteq> set (columns table)" and "''Difference'' \<in> set (columns table)"
proof -
  note pc = process_data_Some(3) [OF ok]
  from r' pd_concat_Inr(3) [OF pc] obtain f r2 where
    f: "f \<in> set files" and r2: "r2 \<in> set (rows (table_of np rx rc f))"
    and r'_eq: "r' = reindex (columns table) r2"
    by auto
  from process_data_Some(2) [OF ok] f have "accepted np rx rc f" by blast
  then obtain df where df: "read_file rx rc f = Inr df"
    and req: "required_columns \<subseteq> set (columns df)"
    and prep: "prepare np df = Inr (table_of np rx rc f)"
    by (rule table_of_accepted)
  from r2 prepare_Inr(2) [OF prep] obtain r where
    r: "r \<in> set (rows df)" and k: "kept r"
    and r2_eq: "r2 = AList.update ''Difference'' (difference_of np r) r"
    by auto
  from prepare_Inr(3) [OF prep] r k
  have sub: "cell_sub np (cell_of r ''Tot'') (cell_of r ''TotExp'') = Inr (difference_of np r)"
    by blast
  from prepare_Inr(1) [OF prep] have cols: "set (columns df) \<subseteq> set (columns (table_of np rx rc f))"
    and d: "''Difference'' \<in> set (columns (table_of np rx rc f))"
    by (auto split: if_splits)
  from pd_concat_Inr(2) [OF pc] f have "set (columns (table_of np rx rc f)) \<subseteq> set (columns table)"
    by auto
  with cols d req have "required_columns \<subseteq> set (columns table)" and "''Difference'' \<in> set (columns table)"
    by auto
  with that f df req r k sub r'_eq r2_eq show thesis by blast
qed

lemma row_cells:
  assumes "process_data np rx rc files = (shown, Inr (Some table))" and "r' \<in> set (rows table)"
  obtains f df r where "f \<in> set files" and "read_file rx rc f = Inr df" and "r \<in> set (rows df)" and "kept r"
    and "cell_sub np (cell_of r ''Tot'') (cell_of r ''TotExp'') = Inr (difference_of np r)"
    and "cell_of r' ''Code'' = cell_of r ''Code''"
    and "cell_of r' ''Tot'' = cell_of r ''Tot''"
    and "cell_of r' ''TotExp'' = cell_of r ''TotExp''"
    and "cell_of r' ''Difference'' = difference_of np r"
proof -
  from assms obtain f df r where f: "f \<in> set files" "read_file rx rc f = Inr df"
    and r: "r \<in> set (rows df)" "kept r"
    and sub: "cell_sub np (cell_of r ''Tot'') (cell_of r ''TotExp'') = Inr (difference_of np r)"
    and r'_eq: "r' = reindex (columns table) (AList.update ''Difference'' (difference_of np r) r)"
    and req: "required_columns \<subseteq> set (columns table)" and d: "''Difference'' \<in> set (columns table)"
    by (rule row_origin)
  from req have "''Code'' \<in> set (columns table)" "''Tot'' \<in> set (columns table)" "''TotExp'' \<in> set (columns table)"
    by (auto simp: required_columns_def)
  with d r'_eq have "cell_of r' ''Code'' = cell_of r ''Code''" "cell_of r' ''Tot'' = cell_of r ''Tot''"
    "cell_of r' ''TotExp'' = cell_of r ''TotExp''" "cell_of r' ''Difference'' = difference_of np r"
    by (simp_all add: cell_of_reindex cell_of_update)
  with that f r sub show thesis by blast
qed



lemma returned_has_Tot:
  assumes "process_data np rx rc files = (shown, Inr (Some table))"
  shows "''Tot'' \<in> set (columns table)"
proof -
  note pc = process_data_Some(3) [OF assms]
  from pd_concat_Inr(1) [OF pc] obtain f where f: "f \<in> set files" by (cases files) auto
  with process_data_Some(2) [OF assms] have "accepted np rx rc f" by blast
  then obtain df where req: "required_columns \<subseteq> set (columns df)"
    and prep: "prepare np df = Inr (table_of np rx rc f)"
    by (rule table_of_accepted)
  from req prepare_Inr(1) [OF prep] have "''Tot'' \<in> set (columns (table_of np rx rc f))"
    by (auto simp: required_columns_def split: if_splits)
  with pd_concat_Inr(2) [OF pc] f show ?thesis by auto
qed

section \<open>The funding status\<close>

lemma funding_status_Inr:
  assumes "funding_status np data = Inr data'"
  shows "columns data' = (if ''Funding Status'' \<in> set (columns data) then columns data
                          else columns data @ [''Funding Status''])"
    and "rows data' = map (\<lambda>r. AList.update ''Funding Status'' (funding_label np (cell_of r ''Tot'')) r) (rows data)"
  using assms
  by (auto simp: funding_status_def getitem_def setitem_def zip_map_same o_def split: if_splits)

lemma funding_status_total:
  "''Tot'' \<in> set (columns data) \<Longrightarrow> \<exists>data'. funding_status np data = Inr data'"
  by (simp add: funding_status_def getitem_def setitem_def)

lemma run_analyses_eq:
  "run_analyses np analysis_options data =
     (if Find_Funded_Non_Funded_Projects \<in> set analysis_options
      then data_after np Find_Funded_Non_Funded_Projects data else data)"
  by (simp add: run_analyses_def split: sum.splits)

section \<open>The example uploads, run\<close>

lemmas eval_defs = small_floats_def process_data_def read_file_def endswith_def required_columns_def prepare_def
  dropna_def add_difference_def getitem_def setitem_def cell_of_def pd_concat_def reindex_def
  reads_content_def unreadable_def six_columns_def mk_row_def
  file_A_def file_B_def file_C_def file_D_def file_E_def file_F_def table_AB_def table_D_def table_A_def

lemma process_A_B: "process_data small_floats reads_content reads_content [file_A, file_B] = ([], Inr (Some table_AB))"
  by (simp add: eval_defs)


lemma accepted_A: "accepted small_floats reads_content reads_content file_A"
  by (simp add: accepted_def eval_defs)

section \<open>The properties\<close>




text \<open>
  Claim C2, as the program has it. When the loop comes to a file whose decoded table
  lacks a required column, every file before it having passed, \<^verbatim>\<open>process_data\<close> shows one
  message, with the name of that file and exactly the required columns its table lacks,
  and returns \<open>None\<close>: no table, and whatever files follow are not looked at (the
  result does not depend on them). An exception on an earlier file ends the call before.
\<close>

theorem missing_columns_reported:
  assumes "files = earlier @ file # later"
    and "\<forall>g\<in>set earlier. accepted np read_excel read_csv g"
    and "read_file read_excel read_csv file = Inr df"
    and "\<not> required_columns \<subseteq> set (columns df)"
  shows "process_data np read_excel read_csv files =
     ([Invalid_format (name file) (required_columns - set (columns df))], Inr None)"
  using assms by (simp add: process_data_def process_files_append)

text \<open>File E before file C: the TypeError of file E ends the call, and the file without
  \<^verbatim>\<open>TotExp\<close> is never looked at.\<close>

theorem earlier_exception_ends_the_call:
  "process_data small_floats reads_content reads_content [file_E, file_C] =
     ([], Inl (TypeError ''str'' ''int'')) \<and>
   process_data small_floats reads_content reads_content [file_C] =
     ([Invalid_format ''c.csv'' {''TotExp''}], Inr None)"
proof -
  have "required_columns - set (columns (content file_C)) = {''TotExp''}"
    by (auto simp: required_columns_def file_C_def)
  then show ?thesis by (simp add: eval_defs)
qed

text \<open>File C, without \<^verbatim>\<open>TotExp\<close>, between the two files of the example.\<close>

theorem missing_columns_reported_witness:
  "process_data small_floats reads_content reads_content [file_A, file_C, file_B] =
     ([Invalid_format ''c.csv'' {''TotExp''}], Inr None)"
proof -
  have 1: "[file_A, file_C, file_B] = [file_A] @ file_C # [file_B]" by simp
  have 2: "\<forall>g\<in>set [file_A]. accepted small_floats reads_content reads_content g" by (simp add: accepted_A)
  have 3: "read_file reads_content reads_content file_C = Inr (content file_C)"
    by (simp add: read_file_def reads_content_def)
  have 4: "\<not> required_columns \<subseteq> set (columns (content file_C))"
    by (simp add: required_columns_def file_C_def)
  have 5: "required_columns - set (columns (content file_C)) = {''TotExp''}"
    by (auto simp: required_columns_def file_C_def)
  from missing_columns_reported [OF 1 2 3 4] show ?thesis
    by (simp add: 5) (simp add: file_C_def)
qed

text \<open>
  Claim C3. Whenever \<^verbatim>\<open>process_data\<close> returns a table, nothing was shown with
  \<^verbatim>\<open>st.error\<close> and no row of the table has a null \<^verbatim>\<open>Code\<close>; nor has any row the empty
  text as its \<^verbatim>\<open>Code\<close>, given that no decoded table had one (the pandas readers decode
  an empty field as NaN). The dropping is silent: the call gives the same result, be it
  a table, \<open>None\<close> or an exception, as on tables from which the null-\<^verbatim>\<open>Code\<close> rows were
  removed beforehand.
\<close>

theorem null_code_rows_dropped:
  "(process_data np read_excel read_csv files = (shown, Inr (Some table)) \<longrightarrow>
      shown = [] \<and>
      (\<forall>r\<in>set (rows table). \<not> isna (cell_of r ''Code'')) \<and>
      ((\<forall>f\<in>set files. \<forall>df. read_file read_excel read_csv f = Inr df \<longrightarrow>
           (\<forall>r\<in>set (rows df). cell_of r ''Code'' \<noteq> Str '''')) \<longrightarrow>
       (\<forall>r\<in>set (rows table). cell_of r ''Code'' \<noteq> Str ''''))) \<and>
   process_data np (without_null_codes read_excel) (without_null_codes read_csv) files =
     process_data np read_excel read_csv files"
proof -
  have inv: "process_data np (without_null_codes read_excel) (without_null_codes read_csv) files =
     process_data np read_excel read_csv files"
    by (simp add: process_data_def process_files_without_null_codes)
  have "shown = []" if ok: "process_data np read_excel read_csv files = (shown, Inr (Some table))"
    using process_data_Some(1) [OF ok] .
  moreover have "\<not> isna (cell_of r ''Code'')"
    if ok: "process_data np read_excel read_csv files = (shown, Inr (Some table))"
      and r: "r \<in> set (rows table)" for r
  proof -
    from ok r obtain r0 where "kept r0" and "cell_of r ''Code'' = cell_of r0 ''Code''"
      by (rule row_cells)
    then show ?thesis by (simp add: kept_def)
  qed
  moreover have "cell_of r ''Code'' \<noteq> Str ''''"
    if ok: "process_data np read_excel read_csv files = (shown, Inr (Some table))"
      and readers: "\<forall>f\<in>set files. \<forall>df. read_file read_excel read_csv f = Inr df \<longrightarrow>
           (\<forall>r\<in>set (rows df). cell_of r ''Code'' \<noteq> Str '''')"
      and r: "r \<in> set (rows table)" for r
  proof -
    from ok r obtain f df r0 where "f \<in> set files" "read_file read_excel read_csv f = Inr df"
      "r0 \<in> set (rows df)" and "cell_of r ''Code'' = cell_of r0 ''Code''"
      by (rule row_cells)
    with readers show ?thesis by auto
  qed
  ultimately show ?thesis using inv by blast
qed

text \<open>File B of the example has a row without \<^verbatim>\<open>Code\<close>: it is not in the table.\<close>

theorem null_code_rows_dropped_witness:
  "process_data small_floats reads_content reads_content [file_A, file_B] = ([], Inr (Some table_AB)) \<and>
   list_all (\<lambda>r. cell_of r ''Code'' \<noteq> Str '''') (rows (content file_A) @ rows (content file_B)) \<and>
   list_all (\<lambda>r. \<not> isna (cell_of r ''Code'') \<and> cell_of r ''Code'' \<noteq> Str '''') (rows table_AB) \<and>
   process_data small_floats (without_null_codes reads_content) (without_null_codes reads_content) [file_A, file_B] =
     ([], Inr (Some table_AB))"
proof -
  have readers: "\<forall>f\<in>set [file_A, file_B]. \<forall>df. read_file reads_content reads_content f = Inr df \<longrightarrow>
      (\<forall>r\<in>set (rows df). cell_of r ''Code'' \<noteq> Str '''')"
    by (simp add: read_file_def reads_content_def file_A_def file_B_def mk_row_def cell_of_def)
  have decoded: "list_all (\<lambda>r. cell_of r ''Code'' \<noteq> Str '''') (rows (content file_A) @ rows (content file_B))"
    by (simp add: file_A_def file_B_def mk_row_def cell_of_def)
  from null_code_rows_dropped [of small_floats reads_content reads_content "[file_A, file_B]" "[]" table_AB]
    process_A_B readers
  have "(\<forall>r\<in>set (rows table_AB). \<not> isna (cell_of r ''Code'')) \<and>
      (\<forall>r\<in>set (rows table_AB). cell_of r ''Code'' \<noteq> Str '''') \<and>
      process_data small_floats (without_null_codes reads_content) (without_null_codes reads_content) [file_A, file_B] =
        ([], Inr (Some table_AB))"
    by simp
  with process_A_B decoded show ?thesis by (simp add: list_all_iff)
qed




text \<open>
  Claim C5, as the program has it. Called with no files, \<^verbatim>\<open>process_data\<close> raises the
  ValueError of \<^verbatim>\<open>pd.concat\<close> on an empty list, whatever the readers are; the script
  never makes that call, since line 10 runs nothing while no file is uploaded.
\<close>

theorem no_files:
  "process_data np read_excel read_csv [] = ([], Inl (ValueError ''No objects to concatenate'')) \<and>
   app np read_excel read_csv [] analysis_options = ([], Inr None)"
  by (simp add: process_data_def pd_concat_def app_def)

theorem empty_upload_raises:
  "process_data small_floats reads_content reads_content [] = ([], Inl (ValueError ''No objects to concatenate''))"
  by (simp add: process_data_def pd_concat_def)

text \<open>
  Claim C6. Whenever \<^verbatim>\<open>process_data\<close> returns a table and the files decode to the tables
  \<open>dfs\<close>, then under any columns of the table other than \<^verbatim>\<open>Difference\<close> the rows of the
  table are, in this order, the kept rows of the first decoded table in their order,
  then those of the second, and so on.
\<close>

theorem order_preserved:
  assumes ok: "process_data np read_excel read_csv files = (shown, Inr (Some table))"
    and dfs: "map (read_file read_excel read_csv) files = map Inr dfs"
    and cs: "set cs \<subseteq> set (columns table) - {''Difference''}"
  shows "map (\<lambda>r. map (cell_of r) cs) (rows table) =
     concat (map (\<lambda>df. map (\<lambda>r. map (cell_of r) cs) (filter kept (rows df))) dfs)"
proof -
  let ?rx = read_excel and ?rc = read_csv
  let ?upd = "\<lambda>r. AList.update ''Difference'' (difference_of np r) r"
  let ?G = "\<lambda>df. map (\<lambda>r. map (cell_of r) cs) (filter kept (rows df))"
  note pc = process_data_Some(3) [OF ok]
  have proj: "map (cell_of (reindex (columns table) (?upd r))) cs = map (cell_of r) cs" for r
    using cs by (auto simp: cell_of_reindex cell_of_update)
  have per_file: "map (\<lambda>r. map (cell_of r) cs) (map (reindex (columns table)) (rows (table_of np ?rx ?rc f)))
      = ?G (projr (read_file ?rx ?rc f))" if "f \<in> set files" for f
  proof -
    from process_data_Some(2) [OF ok] that have "accepted np ?rx ?rc f" by blast
    then obtain df where df: "read_file ?rx ?rc f = Inr df" and prep: "prepare np df = Inr (table_of np ?rx ?rc f)"
      by (rule table_of_accepted)
    show ?thesis by (simp add: df prepare_Inr(2) [OF prep] o_def proj)
  qed
  have "map (\<lambda>r. map (cell_of r) cs) (rows table) =
      concat (map (\<lambda>f. map (\<lambda>r. map (cell_of r) cs) (map (reindex (columns table)) (rows (table_of np ?rx ?rc f)))) files)"
    by (simp add: pd_concat_Inr(3) [OF pc] map_concat o_def)
  also have "\<dots> = concat (map (\<lambda>f. ?G (projr (read_file ?rx ?rc f))) files)"
    using per_file by (auto intro!: arg_cong [where f = concat])
  also have "map (\<lambda>f. ?G (projr (read_file ?rx ?rc f))) files = map (\<lambda>x. ?G (projr x)) (map (read_file ?rx ?rc) files)"
    by (simp add: o_def)
  also have "\<dots> = map ?G dfs" by (simp add: dfs o_def)
  finally show ?thesis .
qed

theorem order_preserved_witness:
  "process_data small_floats reads_content reads_content [file_A, file_B] = ([], Inr (Some table_AB)) \<and>
   map (\<lambda>r. map (cell_of r) [''Code'', ''Tot'']) (rows table_AB) = [[Num 1, Num 100], [Float 2, Num 50]]"
proof -
  have dfs: "map (read_file reads_content reads_content) [file_A, file_B] = map Inr [content file_A, content file_B]"
    by (simp add: read_file_def reads_content_def)
  have cs: "set [''Code'', ''Tot''] \<subseteq> set (columns table_AB) - {''Difference''}"
    by (simp add: table_AB_def six_columns_def)
  from order_preserved [OF process_A_B dfs cs] show ?thesis
    using process_A_B by (simp add: file_A_def file_B_def kept_def mk_row_def cell_of_def)
qed







text \<open>
  Claim C9, as the program has it. On a table returned by \<^verbatim>\<open>process_data\<close> the analyses
  write one column at most: with the funding analysis chosen the table gets the column
  \<^verbatim>\<open>Funding Status\<close> (as its last column, or in place of a column of that name);
  without it the table stays as returned. The number of rows and the cells under every
  other column stay as returned in both cases.
\<close>

theorem only_funding_status_written:
  assumes "process_data np read_excel read_csv files = (shown, Inr (Some table))"
  shows "(Find_Funded_Non_Funded_Projects \<notin> set analysis_options \<longrightarrow>
            run_analyses np analysis_options table = table) \<and>
         (Find_Funded_Non_Funded_Projects \<in> set analysis_options \<longrightarrow>
            columns (run_analyses np analysis_options table) =
              (if ''Funding Status'' \<in> set (columns table) then columns table
               else columns table @ [''Funding Status''])) \<and>
         length (rows (run_analyses np analysis_options table)) = length (rows table) \<and>
         (\<forall>c. c \<noteq> ''Funding Status'' \<longrightarrow>
            map (\<lambda>r. cell_of r c) (rows (run_analyses np analysis_options table)) =
            map (\<lambda>r. cell_of r c) (rows table))"
proof (cases "Find_Funded_Non_Funded_Projects \<in> set analysis_options")
  case False
  then show ?thesis by (simp add: run_analyses_eq)
next
  case True
  from funding_status_total [OF returned_has_Tot [OF assms]] obtain data' where
    fs: "funding_status np table = Inr data'" by blast
  with True have run: "run_analyses np analysis_options table = data'" by (simp add: run_analyses_eq)
  show ?thesis
    unfolding run using True funding_status_Inr [OF fs]
    by (simp add: o_def cell_of_update)
qed

theorem funding_status_column_added:
  "process_data small_floats reads_content reads_content [file_A, file_B] = ([], Inr (Some table_AB)) \<and>
   columns table_AB = six_columns @ [''Difference''] \<and>
   columns (run_analyses small_floats [Find_Funded_Non_Funded_Projects] table_AB) =
     six_columns @ [''Difference'', ''Funding Status'']"
  using process_A_B
  by (simp add: run_analyses_def funding_status_def getitem_def setitem_def table_AB_def six_columns_def)

theorem only_funding_status_written_witness:
  "process_data small_floats reads_content reads_content [file_A, file_B] = ([], Inr (Some table_AB)) \<and>
   run_analyses small_floats [Filter_Data_by_LBType, Find_Projects_Where_Funds_Were_Not_Used] table_AB = table_AB \<and>
   length (rows (run_analyses small_floats [Find_Funded_Non_Funded_Projects] table_AB)) = 2 \<and>
   map (\<lambda>r. cell_of r ''Tot'') (rows (run_analyses small_floats [Find_Funded_Non_Funded_Projects] table_AB)) =
     [Num 100, Num 50]"
proof -
  from only_funding_status_written [OF process_A_B, of "[Filter_Data_by_LBType, Find_Projects_Where_Funds_Were_Not_Used]"]
    only_funding_status_written [OF process_A_B, of "[Find_Funded_Non_Funded_Projects]"]
  show ?thesis
    using process_A_B by (simp add: table_AB_def mk_row_def cell_of_def)
qed

text \<open>
  Claim C10. Line 66 succeeds on every table with a column \<^verbatim>\<open>Tot\<close>; it keeps the number
  of rows, and labels a row \<^verbatim>\<open>Not Funded\<close> when its \<^verbatim>\<open>Tot\<close> is the integer 0 or a float
  that compares equal to 0, and \<^verbatim>\<open>Funded\<close> otherwise, so a row with a null \<^verbatim>\<open>Tot\<close> is
  labelled \<^verbatim>\<open>Funded\<close>.
\<close>

theorem funding_label_by_zero:
  "(''Tot'' \<in> set (columns data) \<longrightarrow> (\<exists>data'. funding_status np data = Inr data')) \<and>
   (funding_status np data = Inr data' \<longrightarrow>
      length (rows data') = length (rows data) \<and>
      (\<forall>r\<in>set (rows data').
         cell_of r ''Funding Status'' =
           (if cell_of r ''Tot'' = Num 0 \<or>
               (\<exists>x. cell_of r ''Tot'' = Float x \<and> float_eq_zero np x)
            then Str ''Not Funded'' else Str ''Funded'') \<and>
         (isna (cell_of r ''Tot'') \<longrightarrow> cell_of r ''Funding Status'' = Str ''Funded'')))"
proof (intro conjI impI)
  assume "''Tot'' \<in> set (columns data)"
  then show "\<exists>data'. funding_status np data = Inr data'" by (rule funding_status_total)
next
  assume fs: "funding_status np data = Inr data'"
  from funding_status_Inr(2) [OF fs] show "length (rows data') = length (rows data)" by simp
  have label: "funding_label np v =
      (if v = Num 0 \<or> (\<exists>x. v = Float x \<and> float_eq_zero np x)
       then Str ''Not Funded'' else Str ''Funded'')" for v
    by (cases v) (simp_all add: funding_label_def)
  show "\<forall>r\<in>set (rows data').
         cell_of r ''Funding Status'' =
           (if cell_of r ''Tot'' = Num 0 \<or>
               (\<exists>x. cell_of r ''Tot'' = Float x \<and> float_eq_zero np x)
            then Str ''Not Funded'' else Str ''Funded'') \<and>
         (isna (cell_of r ''Tot'') \<longrightarrow> cell_of r ''Funding Status'' = Str ''Funded'')"
    using funding_status_Inr(2) [OF fs] by (auto simp: cell_of_update label)
qed

theorem funding_label_by_zero_witness:
  "funding_status small_floats table_D = Inr table_D_labelled \<and>
   map (\<lambda>r. cell_of r ''Tot'') (rows table_D_labelled) = [NaN, Float 0] \<and>
   map (\<lambda>r. cell_of r ''Funding Status'') (rows table_D_labelled) = [Str ''Funded'', Str ''Not Funded''] \<and>
   funding_label small_floats (Num 0) = Str ''Not Funded'' \<and>
   funding_label small_floats (Num 7) = Str ''Funded''"
proof -
  have fs: "funding_status small_floats table_D = Inr table_D_labelled"
    by (simp add: funding_status_def getitem_def setitem_def funding_label_def table_D_def
        table_D_labelled_def six_columns_def mk_row_def cell_of_def small_floats_def)
  from funding_label_by_zero [of table_D small_floats table_D_labelled] fs show ?thesis
    by (simp add: table_D_labelled_def mk_row_def cell_of_def funding_label_def)
qed

end
